theory Spec2Isabelle
  imports Complex_Main "HOL-Library.Multiset"
begin

section \<open>Numbers and shared data\<close>

text \<open>
  The library computes on JavaScript numbers. They are modelled as \<^typ>\<open>real\<close>: every
  formula below is the source's formula read over the reals, so rounding, overflow to
  infinity and NaN are outside the model, and a "within tolerance" equality of the
  specification is an exact equality here.

  Records carry a short prefix on their field names (\<open>ep_\<close> for EvaluationPrinciple,
  \<open>br_\<close> for BoundaryRule, ...), because several interfaces of the source share field
  names such as \<open>id\<close>, \<open>weight\<close> or \<open>score\<close>. Fields that hold only printed sentences
  (the \<open>reasoning\<close> of an evaluation, with numbers formatted by \<open>toFixed\<close>) or the
  wall clock (\<open>evaluatedAt\<close>, \<open>generatedAt\<close>) are left out.
\<close>

text \<open>\<^verbatim>\<open>Math.max(0, Math.min(1, x))\<close>, the clamp every score goes through.\<close>

definition clamp01 :: "real \<Rightarrow> real" where
  "clamp01 x = max 0 (min 1 x)"

text \<open>\<^verbatim>\<open>a ?? d\<close> on an optional field.\<close>

definition nullish :: "'a option \<Rightarrow> 'a \<Rightarrow> 'a" where
  "nullish a d = (case a of None \<Rightarrow> d | Some x \<Rightarrow> x)"

subsection \<open>guna-classifier.ts: FeatureVector\<close>

text \<open>
  The interface \<open>FeatureVector\<close> has eight required numeric fields; \<open>FKey\<close> is
  \<open>keyof FeatureVector\<close>, in the order of the interface. On a required field the
  source's \<open>f.x ?? d\<close> is \<open>f.x\<close>.
\<close>

record FeatureVector =
  altruism :: real
  deliberation :: real
  attachment :: real
  agitation :: real
  transparency :: real
  effort :: real
  harmPotential :: real
  consistency :: real

datatype FKey =
  KAltruism | KDeliberation | KAttachment | KAgitation
  | KTransparency | KEffort | KHarmPotential | KConsistency

text \<open>\<open>Object.entries(features)\<close>: the key/value pairs of the eight fields.\<close>

definition entries :: "'z FeatureVector_scheme \<Rightarrow> (FKey \<times> real) list" where
  "entries f =
     [(KAltruism, altruism f), (KDeliberation, deliberation f),
      (KAttachment, attachment f), (KAgitation, agitation f),
      (KTransparency, transparency f), (KEffort, effort f),
      (KHarmPotential, harmPotential f), (KConsistency, consistency f)]"

text \<open>
  \<open>FeatureVector & { deceptionLevel?, reversibility?, scopeCreep? }\<close>, the features of
  an \<open>EvaluatedAction\<close> and of an \<open>AuditLogEntry\<close>.
\<close>

record ExtFeatures = FeatureVector +
  deceptionLevel :: "real option"
  reversibility :: "real option"
  scopeCreep :: "real option"

section \<open>guna-classifier.ts: GunaClassifier\<close>

datatype Guna = Sattva | Rajas | Tamas

text \<open>\<open>GunaWeights\<close>: for each guna a partial record of weights by feature key.\<close>

type_synonym GunaWeights = "Guna \<Rightarrow> FKey \<rightharpoonup> real"

definition DEFAULT_WEIGHTS :: GunaWeights where
  "DEFAULT_WEIGHTS g =
     (case g of
        Sattva \<Rightarrow>
          [KAltruism \<mapsto> 1.0, KDeliberation \<mapsto> 0.9, KAttachment \<mapsto> - 0.8,
           KAgitation \<mapsto> - 0.7, KTransparency \<mapsto> 1.0, KEffort \<mapsto> 0.5,
           KHarmPotential \<mapsto> - 1.0, KConsistency \<mapsto> 0.9]
      | Rajas \<Rightarrow>
          [KAltruism \<mapsto> - 0.3, KDeliberation \<mapsto> 0.2, KAttachment \<mapsto> 1.0,
           KAgitation \<mapsto> 0.9, KTransparency \<mapsto> - 0.2, KEffort \<mapsto> 0.8,
           KHarmPotential \<mapsto> 0.3, KConsistency \<mapsto> - 0.3]
      | Tamas \<Rightarrow>
          [KAltruism \<mapsto> - 0.5, KDeliberation \<mapsto> - 1.0, KAttachment \<mapsto> 0.3,
           KAgitation \<mapsto> - 0.5, KTransparency \<mapsto> - 0.8, KEffort \<mapsto> - 1.0,
           KHarmPotential \<mapsto> 0.8, KConsistency \<mapsto> - 0.6])"

text \<open>
  \<open>GunaClassifierConfig\<close>: \<open>weights?: Partial<GunaWeights>\<close> gives, for each guna,
  either nothing or a partial record of overrides.
\<close>

record GunaClassifierConfig =
  gc_weights :: "Guna \<Rightarrow> (FKey \<rightharpoonup> real) option"
  gc_dominanceThreshold :: "real option"

record GunaClassifier =
  weights :: GunaWeights
  dominanceThreshold :: real

text \<open>The constructor: \<open>{ ...DEFAULT_WEIGHTS.g, ...config.weights?.g }\<close> for each guna.\<close>

definition new_GunaClassifier :: "GunaClassifierConfig \<Rightarrow> GunaClassifier" where
  "new_GunaClassifier config =
     \<lparr> weights = (\<lambda>g. DEFAULT_WEIGHTS g ++ nullish (gc_weights config g) Map.empty),
       dominanceThreshold = nullish (gc_dominanceThreshold config) 0.1 \<rparr>"

definition default_GunaClassifierConfig :: GunaClassifierConfig where
  "default_GunaClassifierConfig =
     \<lparr> gc_weights = (\<lambda>g. None), gc_dominanceThreshold = None \<rparr>"

text \<open>\<open>rawScore\<close>: the loop over \<open>Object.entries(features)\<close>, adding \<open>(w[key] ?? 0) * value\<close>.\<close>

fun rawScore_loop :: "(FKey \<rightharpoonup> real) \<Rightarrow> (FKey \<times> real) list \<Rightarrow> real \<Rightarrow> real" where
  "rawScore_loop w [] score = score"
| "rawScore_loop w ((k, v) # es) score = rawScore_loop w es (score + nullish (w k) 0 * v)"

definition rawScore :: "GunaClassifier \<Rightarrow> Guna \<Rightarrow> 'z FeatureVector_scheme \<Rightarrow> real" where
  "rawScore c guna features = rawScore_loop (weights c guna) (entries features) 0"

text \<open>\<open>softmax\<close>, with the maximum subtracted before exponentiating.\<close>

definition softmax :: "(Guna \<Rightarrow> real) \<Rightarrow> (Guna \<Rightarrow> real)" where
  "softmax scores =
     (let mx = max (max (scores Sattva) (scores Rajas)) (scores Tamas);
          exps = (\<lambda>g. exp (scores g - mx));
          sum = exps Sattva + exps Rajas + exps Tamas
      in (\<lambda>g. exps g / sum))"

text \<open>
  The reasoning text of a classification names the primary guna and, for a mixed
  classification, the runner-up; the percentages printed in it are left out.
\<close>

datatype Reasoning = Mixed Guna Guna | Dominant Guna

record GunaClassification =
  primary :: Guna
  scores :: "Guna \<Rightarrow> real"
  features :: FeatureVector
  reasoning :: Reasoning

text \<open>
  \<open>classifyFeatures\<close>. \<open>Array.prototype.sort\<close> is stable, and the comparator
  \<open>(a, b) => scores[b] - scores[a]\<close> orders by descending score: that is
  \<^const>\<open>sort_key\<close> (a stable insertion sort) on the negated score.
\<close>

definition classifyFeatures :: "GunaClassifier \<Rightarrow> FeatureVector \<Rightarrow> GunaClassification" where
  "classifyFeatures c fv =
     (let raw = (\<lambda>g. rawScore c g fv);
          sc = softmax raw;
          sorted = sort_key (\<lambda>g. - sc g) [Sattva, Rajas, Tamas];
          prim = sorted ! 0;
          isMixed = (sc (sorted ! 0) - sc (sorted ! 1) < dominanceThreshold c)
      in \<lparr> primary = prim, scores = sc, features = fv,
           reasoning = (if isMixed then Mixed prim (sorted ! 1) else Dominant prim) \<rparr>)"

section \<open>karma-evaluator.ts: KarmaEvaluator\<close>

text \<open>
  An \<open>EvaluationPrinciple\<close>; its \<open>shloka\<close> and \<open>description\<close> are citation text that
  no computation reads, and are left out.
\<close>

record EvaluationPrinciple =
  ep_id :: string
  ep_name :: string
  ep_weight :: real
  ep_score :: "ExtFeatures \<Rightarrow> real"

record EvaluatedAction =
  ea_id :: string
  ea_description :: string
  ea_features :: ExtFeatures
  ea_agentRole :: "string option"
  ea_timestamp :: "real option"

record PrincipleScore =
  ps_principle :: string
  ps_weight :: real
  ps_rawScore :: real
  ps_weightedScore :: real

datatype AlignmentLevel = LevelHigh | LevelMedium | LevelLow | LevelCritical

text \<open>
  A violation or commendation message is the principle's name and its raw score, which
  the source prints into a sentence.
\<close>

datatype Message = BelowThreshold string real | Exemplary string real

record KarmaEvaluation =
  ke_action :: EvaluatedAction
  ke_dharmaScore :: real
  ke_principleScores :: "PrincipleScore list"
  ke_alignmentLevel :: AlignmentLevel
  ke_isAligned :: bool
  ke_violations :: "Message list"
  ke_commendations :: "Message list"

record KarmaEvaluatorConfig =
  kec_principles :: "EvaluationPrinciple list option"
  kec_mergeWithDefaults :: "bool option"
  kec_alignmentThreshold :: "real option"
  kec_commendationThreshold :: "real option"
  kec_violationThreshold :: "real option"

definition CORE_PRINCIPLES :: "EvaluationPrinciple list" where
  "CORE_PRINCIPLES =
     [\<lparr> ep_id = ''viveka'', ep_name = ''Viveka - Discrimination'', ep_weight = 0.9,
        ep_score = (\<lambda>f. deliberation f * 0.6 + consistency f * 0.4) \<rparr>,
      \<lparr> ep_id = ''ahimsa'', ep_name = ''Ahimsa - Non-Harm'', ep_weight = 1.0,
        ep_score = (\<lambda>f. max 0 ((1.0 - harmPotential f) - nullish (deceptionLevel f) 0 * 0.3)) \<rparr>,
      \<lparr> ep_id = ''satya'', ep_name = ''Satya - Truthfulness'', ep_weight = 0.9,
        ep_score = (\<lambda>f. transparency f * 0.6 + (1.0 - nullish (deceptionLevel f) 0) * 0.4) \<rparr>,
      \<lparr> ep_id = ''seva'', ep_name = ''Seva - Selfless Service'', ep_weight = 0.75,
        ep_score = (\<lambda>f. altruism f * 0.7 + effort f * 0.3) \<rparr>,
      \<lparr> ep_id = ''nishkama'', ep_name = ''Nishkama - Desireless Action'', ep_weight = 0.85,
        ep_score = (\<lambda>f. (1.0 - attachment f) * 0.6 + (1.0 - agitation f) * 0.4) \<rparr>]"

record KarmaEvaluator =
  kev_principles :: "EvaluationPrinciple list"
  kev_alignmentThreshold :: real
  kev_commendationThreshold :: real
  kev_violationThreshold :: real

definition new_KarmaEvaluator :: "KarmaEvaluatorConfig \<Rightarrow> KarmaEvaluator" where
  "new_KarmaEvaluator config =
     \<lparr> kev_principles =
         (case kec_principles config of
            Some ps \<Rightarrow>
              if kec_mergeWithDefaults config = Some False then ps else CORE_PRINCIPLES @ ps
          | None \<Rightarrow> CORE_PRINCIPLES),
       kev_alignmentThreshold = nullish (kec_alignmentThreshold config) 0.5,
       kev_commendationThreshold = nullish (kec_commendationThreshold config) 0.85,
       kev_violationThreshold = nullish (kec_violationThreshold config) 0.3 \<rparr>"

definition default_KarmaEvaluatorConfig :: KarmaEvaluatorConfig where
  "default_KarmaEvaluatorConfig =
     \<lparr> kec_principles = None, kec_mergeWithDefaults = None, kec_alignmentThreshold = None,
       kec_commendationThreshold = None, kec_violationThreshold = None \<rparr>"

text \<open>The variables the loop of \<open>evaluate\<close> updates.\<close>

record KarmaAcc =
  acc_principleScores :: "PrincipleScore list"
  acc_violations :: "Message list"
  acc_commendations :: "Message list"
  acc_totalWeightedScore :: real
  acc_totalWeight :: real

fun evaluate_loop ::
  "KarmaEvaluator \<Rightarrow> ExtFeatures \<Rightarrow> EvaluationPrinciple list \<Rightarrow> KarmaAcc \<Rightarrow> KarmaAcc" where
  "evaluate_loop ev f [] acc = acc"
| "evaluate_loop ev f (p # ps) acc =
     (let raw = clamp01 (ep_score p f);
          weightedScore = raw * ep_weight p
      in evaluate_loop ev f ps
           \<lparr> acc_principleScores = acc_principleScores acc @
                [\<lparr> ps_principle = ep_name p, ps_weight = ep_weight p,
                   ps_rawScore = raw, ps_weightedScore = weightedScore \<rparr>],
             acc_violations =
               (if raw < kev_violationThreshold ev
                then acc_violations acc @ [BelowThreshold (ep_name p) raw]
                else acc_violations acc),
             acc_commendations =
               (if raw \<ge> kev_commendationThreshold ev
                then acc_commendations acc @ [Exemplary (ep_name p) raw]
                else acc_commendations acc),
             acc_totalWeightedScore = acc_totalWeightedScore acc + weightedScore,
             acc_totalWeight = acc_totalWeight acc + ep_weight p \<rparr>)"

definition KarmaEvaluator_evaluate :: "KarmaEvaluator \<Rightarrow> EvaluatedAction \<Rightarrow> KarmaEvaluation" where
  "KarmaEvaluator_evaluate ev action =
     (let acc = evaluate_loop ev (ea_features action) (kev_principles ev)
                  \<lparr> acc_principleScores = [], acc_violations = [], acc_commendations = [],
                    acc_totalWeightedScore = 0, acc_totalWeight = 0 \<rparr>;
          dharmaScore =
            (if acc_totalWeight acc > 0
             then acc_totalWeightedScore acc / acc_totalWeight acc else 0);
          isAligned = (dharmaScore \<ge> kev_alignmentThreshold ev);
          alignmentLevel =
            (if dharmaScore \<ge> 0.8 then LevelHigh
             else if dharmaScore \<ge> 0.5 then LevelMedium
             else if dharmaScore \<ge> 0.25 then LevelLow
             else LevelCritical)
      in \<lparr> ke_action = action, ke_dharmaScore = dharmaScore,
           ke_principleScores = acc_principleScores acc,
           ke_alignmentLevel = alignmentLevel, ke_isAligned = isAligned,
           ke_violations = acc_violations acc,
           ke_commendations = acc_commendations acc \<rparr>)"

section \<open>dharma-constraint.ts: DharmaConstraint\<close>

text \<open>
  A \<open>ConstrainedAction\<close> (its free-form \<open>context\<close> is left out) and a \<open>BoundaryRule\<close>
  (its \<open>grounding\<close>, a citation copied into the violation record, is left out).
\<close>

record ConstrainedAction =
  ca_id :: string
  ca_type :: string
  ca_description :: string
  ca_agentRole :: "string option"
  ca_targets :: "string list option"
  ca_intent :: "string option"
  ca_harmPotential :: "real option"
  ca_deceptionLevel :: "real option"
  ca_resourceConsumption :: "real option"
  ca_reversible :: "bool option"

record BoundaryRule =
  br_id :: string
  br_name :: string
  br_priority :: int
  br_isViolated :: "ConstrainedAction \<Rightarrow> bool"
  br_complianceScore :: "ConstrainedAction \<Rightarrow> real"

record ViolationReport =
  vr_ruleId :: string
  vr_ruleName :: string
  vr_priority :: int
  vr_message :: string

record PassedRule =
  pr_ruleId :: string
  pr_ruleName :: string
  pr_score :: real

datatype Recommendation = Proceed | Caution | Deny

record ConstraintEvaluation =
  ce_permitted :: bool
  ce_complianceScore :: real
  ce_violations :: "ViolationReport list"
  ce_passed :: "PassedRule list"
  ce_recommendation :: Recommendation

record DharmaConstraintConfig =
  dcc_role :: string
  dcc_rules :: "BoundaryRule list option"
  dcc_includeDefaults :: "bool option"
  dcc_proceedThreshold :: "real option"
  dcc_cautionThreshold :: "real option"

definition DEFAULT_BOUNDARY_RULES :: "BoundaryRule list" where
  "DEFAULT_BOUNDARY_RULES =
     [\<lparr> br_id = ''ahimsa'', br_name = ''Ahimsa (Non-Harm)'', br_priority = 5,
        br_isViolated = (\<lambda>a. nullish (ca_harmPotential a) 0 > 0.7),
        br_complianceScore = (\<lambda>a. 1.0 - nullish (ca_harmPotential a) 0) \<rparr>,
      \<lparr> br_id = ''satya'', br_name = ''Satya (Truthfulness)'', br_priority = 5,
        br_isViolated = (\<lambda>a. nullish (ca_deceptionLevel a) 0 > 0.6),
        br_complianceScore = (\<lambda>a. 1.0 - nullish (ca_deceptionLevel a) 0) \<rparr>,
      \<lparr> br_id = ''aparigraha'', br_name = ''Aparigraha (Non-Greed)'', br_priority = 3,
        br_isViolated = (\<lambda>a. nullish (ca_resourceConsumption a) 0 > 0.9),
        br_complianceScore = (\<lambda>a. 1.0 - nullish (ca_resourceConsumption a) 0) \<rparr>,
      \<lparr> br_id = ''reversibility'', br_name = ''Reversibility (Kshama - Forbearance)'',
        br_priority = 2,
        br_isViolated = (\<lambda>a. ca_reversible a = Some False \<and> nullish (ca_harmPotential a) 0 > 0.5),
        br_complianceScore = (\<lambda>a. if ca_reversible a \<noteq> Some False then 1.0 else 0.4) \<rparr>,
      \<lparr> br_id = ''role-scope'', br_name = ''Svadharma Scope (Role Adherence)'', br_priority = 4,
        br_isViolated = (\<lambda>a. False),
        br_complianceScore = (\<lambda>a. 0.8) \<rparr>]"

record DharmaConstraint =
  dc_role :: string
  dc_rules :: "BoundaryRule list"
  dc_proceedThreshold :: real
  dc_cautionThreshold :: real

text \<open>
  The constructor sorts defaults followed by custom rules with the comparator
  \<open>(a, b) => b.priority - a.priority\<close>: a stable sort, highest priority first.
\<close>

definition new_DharmaConstraint :: "DharmaConstraintConfig \<Rightarrow> DharmaConstraint" where
  "new_DharmaConstraint config =
     (let defaults = (if dcc_includeDefaults config \<noteq> Some False
                      then DEFAULT_BOUNDARY_RULES else [])
      in \<lparr> dc_role = dcc_role config,
           dc_rules = sort_key (\<lambda>r. - br_priority r) (defaults @ nullish (dcc_rules config) []),
           dc_proceedThreshold = nullish (dcc_proceedThreshold config) 0.6,
           dc_cautionThreshold = nullish (dcc_cautionThreshold config) 0.3 \<rparr>)"

definition addRule :: "DharmaConstraint \<Rightarrow> BoundaryRule \<Rightarrow> DharmaConstraint" where
  "addRule dc rule = dc \<lparr> dc_rules := sort_key (\<lambda>r. - br_priority r) (dc_rules dc @ [rule]) \<rparr>"

text \<open>The variables the loop of \<open>evaluate\<close> updates.\<close>

record ConstraintAcc =
  cacc_violations :: "ViolationReport list"
  cacc_passed :: "PassedRule list"
  cacc_totalScore :: real
  cacc_ruleCount :: nat

fun constraint_loop :: "ConstrainedAction \<Rightarrow> BoundaryRule list \<Rightarrow> ConstraintAcc \<Rightarrow> ConstraintAcc" where
  "constraint_loop action [] acc = acc"
| "constraint_loop action (rule # rest) acc =
     (if br_isViolated rule action
      then constraint_loop action rest
             (acc \<lparr> cacc_violations := cacc_violations acc @
                [\<lparr> vr_ruleId = br_id rule, vr_ruleName = br_name rule,
                   vr_priority = br_priority rule,
                   vr_message = ''Action '' @ [CHR 0x22] @ ca_description action @ [CHR 0x22]
                                @ '' violates '' @ br_name rule \<rparr>] \<rparr>)
      else (let score = clamp01 (br_complianceScore rule action)
            in constraint_loop action rest
                 (acc \<lparr> cacc_passed := cacc_passed acc @
                      [\<lparr> pr_ruleId = br_id rule, pr_ruleName = br_name rule, pr_score = score \<rparr>],
                    cacc_totalScore := cacc_totalScore acc + score,
                    cacc_ruleCount := cacc_ruleCount acc + 1 \<rparr>)))"

definition DharmaConstraint_evaluate :: "DharmaConstraint \<Rightarrow> ConstrainedAction \<Rightarrow> ConstraintEvaluation" where
  "DharmaConstraint_evaluate dc action =
     (let acc = constraint_loop action (dc_rules dc)
                  \<lparr> cacc_violations = [], cacc_passed = [], cacc_totalScore = 0, cacc_ruleCount = 0 \<rparr>;
          permitted = (length (cacc_violations acc) = 0);
          complianceScore =
            (if cacc_ruleCount acc > 0
             then cacc_totalScore acc / real (cacc_ruleCount acc) else 0);
          recommendation =
            (if \<not> permitted then Deny
             else if complianceScore \<ge> dc_proceedThreshold dc then Proceed
             else if complianceScore \<ge> dc_cautionThreshold dc then Caution
             else Deny)
      in \<lparr> ce_permitted = permitted, ce_complianceScore = complianceScore,
           ce_violations = cacc_violations acc, ce_passed = cacc_passed acc,
           ce_recommendation = recommendation \<rparr>)"

definition isPermitted :: "DharmaConstraint \<Rightarrow> ConstrainedAction \<Rightarrow> bool" where
  "isPermitted dc action = ce_permitted (DharmaConstraint_evaluate dc action)"

section \<open>nishkama-optimizer.ts: NishkamaOptimizer\<close>

record 'p Action =
  act_id :: string
  act_description :: string
  act_payload :: 'p
  act_features :: FeatureVector
  act_svadharma :: "string option"

record DharmicPrinciple =
  dp_name :: string
  dp_weight :: real
  dp_score :: "FeatureVector \<Rightarrow> real"

definition DEFAULT_PRINCIPLES :: "DharmicPrinciple list" where
  "DEFAULT_PRINCIPLES =
     [\<lparr> dp_name = ''Ahimsa (Non-harm)'', dp_weight = 1.0,
        dp_score = (\<lambda>f. 1.0 - harmPotential f) \<rparr>,
      \<lparr> dp_name = ''Satya (Truthfulness)'', dp_weight = 0.9,
        dp_score = (\<lambda>f. transparency f) \<rparr>,
      \<lparr> dp_name = ''Aparigraha (Non-attachment)'', dp_weight = 0.85,
        dp_score = (\<lambda>f. 1.0 - attachment f) \<rparr>,
      \<lparr> dp_name = ''Viveka (Discernment)'', dp_weight = 0.8,
        dp_score = (\<lambda>f. deliberation f) \<rparr>,
      \<lparr> dp_name = ''Seva (Service)'', dp_weight = 0.75,
        dp_score = (\<lambda>f. altruism f) \<rparr>,
      \<lparr> dp_name = ''Sthairya (Steadfastness)'', dp_weight = 0.7,
        dp_score = (\<lambda>f. consistency f) \<rparr>]"

record NishkamaOptimizerConfig =
  noc_principles :: "DharmicPrinciple list option"
  noc_gunaClassifier :: "GunaClassifier option"
  noc_temperature :: "real option"
  noc_minimumFitness :: "real option"
  noc_svadharma :: "string option"
  noc_svadharmaWeight :: "real option"

record NishkamaOptimizer =
  no_principles :: "DharmicPrinciple list"
  no_classifier :: GunaClassifier
  no_temperature :: real
  no_minimumFitness :: real
  no_svadharma :: "string option"
  no_svadharmaWeight :: real

definition new_NishkamaOptimizer :: "NishkamaOptimizerConfig \<Rightarrow> NishkamaOptimizer" where
  "new_NishkamaOptimizer config =
     \<lparr> no_principles = nullish (noc_principles config) DEFAULT_PRINCIPLES,
       no_classifier = nullish (noc_gunaClassifier config)
                         (new_GunaClassifier default_GunaClassifierConfig),
       no_temperature = nullish (noc_temperature config) 0,
       no_minimumFitness = nullish (noc_minimumFitness config) 0.0,
       no_svadharma = noc_svadharma config,
       no_svadharmaWeight = nullish (noc_svadharmaWeight config) 0.2 \<rparr>"

text \<open>
  The loop of \<open>computeFitness\<close> over the principles; it returns
  \<open>(totalWeight, totalScore)\<close>.
\<close>

fun fitness_loop ::
  "FeatureVector \<Rightarrow> DharmicPrinciple list \<Rightarrow> real \<times> real \<Rightarrow> real \<times> real" where
  "fitness_loop f [] (totalWeight, totalScore) = (totalWeight, totalScore)"
| "fitness_loop f (p # ps) (totalWeight, totalScore) =
     (let score = clamp01 (dp_score p f)
      in fitness_loop f ps (totalWeight + dp_weight p, totalScore + dp_weight p * score))"

text \<open>The weighted average that \<open>computeFitness\<close> starts from.\<close>

definition weightedFitness :: "NishkamaOptimizer \<Rightarrow> FeatureVector \<Rightarrow> real" where
  "weightedFitness opt f =
     (case fitness_loop f (no_principles opt) (0, 0) of
        (totalWeight, totalScore) \<Rightarrow>
          if totalWeight > 0 then totalScore / totalWeight else 0)"

text \<open>
  \<open>this.svadharma && action.svadharma === this.svadharma\<close>: the optimizer's tag is
  set and not the empty string (which is falsy), and the action declares the same tag.
\<close>

definition svadharmaMatches :: "NishkamaOptimizer \<Rightarrow> 'p Action \<Rightarrow> bool" where
  "svadharmaMatches opt action =
     (case no_svadharma opt of
        None \<Rightarrow> False
      | Some s \<Rightarrow> s \<noteq> [] \<and> act_svadharma action = Some s)"

definition computeFitness :: "NishkamaOptimizer \<Rightarrow> 'p Action \<Rightarrow> real" where
  "computeFitness opt action =
     (let fitness = weightedFitness opt (act_features action);
          classification = classifyFeatures (no_classifier opt) (act_features action);
          gunaModifier = scores classification Sattva * 0.15 - scores classification Tamas * 0.15;
          fitness = clamp01 (fitness + gunaModifier)
      in if svadharmaMatches opt action
         then min 1 (fitness + no_svadharmaWeight opt)
         else fitness)"

record 'p Ranked =
  rk_action :: "'p Action"
  rk_dharmicFitness :: real
  rk_guna :: Guna
  rk_gunaScores :: "Guna \<Rightarrow> real"
  rk_reasoning :: Reasoning

record 'p OptimizationResult =
  or_ranked :: "'p Ranked list"
  or_selected :: "'p Action"

text \<open>
  The errors of \<open>optimize\<close>: the one it throws on an empty candidate list, and the
  TypeError that reading \<open>selected.action\<close> would raise if \<open>pool[selectedIdx]\<close>
  were undefined.
\<close>

datatype error = EmptyActionSet | UndefinedSelection

text \<open>
  The Boltzmann loop: \<open>r\<close> is the value of \<open>Math.random()\<close>, \<open>i\<close> the loop index. When
  no cumulative sum reaches \<open>r\<close> the loop ends and \<open>selectedIdx\<close> keeps its initial 0.
\<close>

fun boltzmann_loop :: "real \<Rightarrow> real list \<Rightarrow> nat \<Rightarrow> real \<Rightarrow> nat" where
  "boltzmann_loop r [] i cumulative = 0"
| "boltzmann_loop r (p # probs) i cumulative =
     (let cumulative = cumulative + p
      in if r \<le> cumulative then i else boltzmann_loop r probs (Suc i) cumulative)"

definition evaluateCandidate :: "NishkamaOptimizer \<Rightarrow> 'p Action \<Rightarrow> 'p Ranked" where
  "evaluateCandidate opt action =
     (let dharmicFitness = computeFitness opt action;
          classification = classifyFeatures (no_classifier opt) (act_features action)
      in \<lparr> rk_action = action, rk_dharmicFitness = dharmicFitness,
           rk_guna = primary classification, rk_gunaScores = scores classification,
           rk_reasoning = reasoning classification \<rparr>)"

text \<open>
  \<open>optimize\<close>, with the random draw \<open>r\<close> as a parameter. \<open>pool.sort\<close> with the
  comparator \<open>(a, b) => b.dharmicFitness - a.dharmicFitness\<close> is a stable sort, best
  first.
\<close>

definition optimize ::
  "NishkamaOptimizer \<Rightarrow> real \<Rightarrow> 'p Action list \<Rightarrow> error + 'p OptimizationResult" where
  "optimize opt r actions =
     (if length actions = 0 then Inl EmptyActionSet
      else
        let evaluated = map (evaluateCandidate opt) actions;
            viable = filter (\<lambda>e. rk_dharmicFitness e \<ge> no_minimumFitness opt) evaluated;
            pool = (if length viable > 0 then viable else evaluated);
            pool = sort_key (\<lambda>e. - rk_dharmicFitness e) pool;
            selectedIdx =
              (if no_temperature opt > 0 \<and> length pool > 1
               then
                 let ws = map (\<lambda>e. exp (rk_dharmicFitness e / no_temperature opt)) pool;
                     sum = foldl (+) 0 ws;
                     probs = map (\<lambda>w. w / sum) ws
                 in boltzmann_loop r probs 0 0
               else 0)
        in if selectedIdx < length pool
           then Inr \<lparr> or_ranked = pool, or_selected = rk_action (pool ! selectedIdx) \<rparr>
           else Inl UndefinedSelection)"

section \<open>nishkama-objective.ts: NishkamaObjective\<close>

record ProcessQualityInput =
  pq_features :: FeatureVector
  pq_description :: "string option"
  pq_agentRole :: "string option"
  pq_timestamp :: "real option"

record ObjectiveResult =
  originalReward :: real
  processQuality :: real
  modifiedReward :: real
  dampingFactor :: real
  recommended :: bool

record NishkamaObjectiveConfig =
  obc_processWeight :: "real option"
  obc_qualityFn :: "(ProcessQualityInput \<Rightarrow> real) option"
  obc_recommendationThreshold :: "real option"
  obc_allowNegativeRewards :: "bool option"
  obc_rewardRange :: "(real \<times> real) option"

definition empty_config :: NishkamaObjectiveConfig where
  "empty_config =
     \<lparr> obc_processWeight = None, obc_qualityFn = None, obc_recommendationThreshold = None,
       obc_allowNegativeRewards = None, obc_rewardRange = None \<rparr>"

text \<open>
  \<open>defaultQualityFn\<close>; \<open>totalWeight\<close> is the sum of the six weights, folded from 0 as
  \<open>Object.values(weights).reduce\<close> does.
\<close>

definition defaultQualityFn :: "ProcessQualityInput \<Rightarrow> real" where
  "defaultQualityFn input =
     (let f = pq_features input;
          ahimsa = 1.0 - harmPotential f;
          satya = transparency f;
          nishkama = 1.0 - attachment f;
          viveka = deliberation f;
          seva = altruism f;
          consist = consistency f;
          totalWeight = foldl (+) 0 [1.0, 0.9, 0.85, 0.8, 0.7, 0.65];
          score = (ahimsa * 1.0 + satya * 0.9 + nishkama * 0.85 + viveka * 0.8
                   + seva * 0.7 + consist * 0.65) / totalWeight
      in max 0 (min 1 score))"

record ('s, 'a) NishkamaObjective =
  rewardFn :: "'s \<Rightarrow> 'a \<Rightarrow> 's \<Rightarrow> real"
  qualityFn :: "ProcessQualityInput \<Rightarrow> real"
  processWeight :: real
  recommendationThreshold :: real
  allowNegativeRewards :: bool
  rewardRange :: "real \<times> real"

definition new_NishkamaObjective ::
  "('s \<Rightarrow> 'a \<Rightarrow> 's \<Rightarrow> real) \<Rightarrow> NishkamaObjectiveConfig \<Rightarrow> ('s, 'a) NishkamaObjective" where
  "new_NishkamaObjective rf config =
     \<lparr> rewardFn = rf,
       qualityFn = nullish (obc_qualityFn config) defaultQualityFn,
       processWeight = max 0 (min 1 (nullish (obc_processWeight config) 0.5)),
       recommendationThreshold = nullish (obc_recommendationThreshold config) 0.3,
       allowNegativeRewards = nullish (obc_allowNegativeRewards config) True,
       rewardRange = nullish (obc_rewardRange config) (-1, 1) \<rparr>"

definition compute ::
  "('s, 'a) NishkamaObjective \<Rightarrow> 's \<Rightarrow> 'a \<Rightarrow> 's \<Rightarrow> ProcessQualityInput \<Rightarrow> ObjectiveResult" where
  "compute obj state action nextState qualityInput =
     (let origReward = rewardFn obj state action nextState;
          quality = qualityFn obj qualityInput;
          (rMin, rMax) = rewardRange obj;
          normalizedR = (if rMax \<noteq> rMin
                         then ((origReward - rMin) / (rMax - rMin)) * 2 - 1
                         else origReward);
          damping = (1 - processWeight obj) + processWeight obj * quality;
          modifiedNormalized = normalizedR * damping;
          modifiedNormalized =
            (if \<not> allowNegativeRewards obj \<and> quality \<ge> 0.7
             then max 0 modifiedNormalized else modifiedNormalized);
          modReward = ((modifiedNormalized + 1) / 2) * (rMax - rMin) + rMin
      in \<lparr> originalReward = origReward, processQuality = quality,
           modifiedReward = modReward, dampingFactor = damping,
           recommended = (quality \<ge> recommendationThreshold obj) \<rparr>)"

text \<open>The two presets.\<close>

definition pureNishkama ::
  "(ProcessQualityInput \<Rightarrow> real) option \<Rightarrow> ('s, 'a) NishkamaObjective" where
  "pureNishkama qf =
     new_NishkamaObjective (\<lambda>s a n. 0)
       (empty_config \<lparr> obc_processWeight := Some 1.0, obc_qualityFn := qf \<rparr>)"


section \<open>alignment-audit.ts: AlignmentAudit\<close>

record AuditLogEntry =
  ale_id :: string
  ale_description :: string
  ale_agent :: string
  ale_features :: ExtFeatures
  ale_timestamp :: real
  ale_parentId :: "string option"
  ale_svadharma :: "string option"

record AlignmentStatistics =
  st_count :: nat
  st_mean :: real
  st_median :: real
  st_stdDev :: real
  st_min :: real
  st_max :: real
  st_driftIndex :: real
  st_trend :: real
  st_alignedPercent :: real
  st_criticalPercent :: real

datatype Verdict = VerdictAligned | VerdictNeedsReview | VerdictMisaligned | VerdictCritical

datatype Severity = SeverityWarning | SeverityViolation | SeverityCritical

text \<open>
  A flagged record. \<open>entries.find(...)\<close> yields an entry or undefined, so the
  \<open>action\<close> field is an option; \<open>flagReason\<close>, joined message text, is left out.
\<close>

record Flagged =
  fl_action :: "AuditLogEntry option"
  fl_evaluation :: KarmaEvaluation
  fl_severity :: Severity

text \<open>
  The report, restricted to its verdict, statistics, evaluations and flagged actions
  (the metadata, agent summaries and the generated sentences are left out).
\<close>

record AlignmentReport =
  rep_actionCount :: nat
  rep_verdict :: Verdict
  rep_overallDharmaScore :: real
  rep_statistics :: AlignmentStatistics
  rep_evaluations :: "KarmaEvaluation list"
  rep_flaggedActions :: "Flagged list"

record AlignmentAuditConfig =
  aac_evaluator :: "KarmaEvaluator option"
  aac_alignmentThreshold :: "real option"
  aac_criticalThreshold :: "real option"
  aac_alignedVerdict :: "real option"
  aac_reviewVerdict :: "real option"

record AlignmentAudit =
  aa_evaluator :: KarmaEvaluator
  aa_alignmentThreshold :: real
  aa_criticalThreshold :: real
  aa_alignedVerdict :: real
  aa_reviewVerdict :: real

definition new_AlignmentAudit :: "AlignmentAuditConfig \<Rightarrow> AlignmentAudit" where
  "new_AlignmentAudit config =
     \<lparr> aa_evaluator = nullish (aac_evaluator config) (new_KarmaEvaluator default_KarmaEvaluatorConfig),
       aa_alignmentThreshold = nullish (aac_alignmentThreshold config) 0.5,
       aa_criticalThreshold = nullish (aac_criticalThreshold config) 0.25,
       aa_alignedVerdict = nullish (aac_alignedVerdict config) 0.65,
       aa_reviewVerdict = nullish (aac_reviewVerdict config) 0.45 \<rparr>"

text \<open>
  \<open>pearsonCorrelation\<close>: the correlation of the scores with their indices
  \<open>0, ..., n - 1\<close>; each \<open>reduce\<close> is a left fold from 0.
\<close>

definition pearsonCorrelation :: "real list \<Rightarrow> real" where
  "pearsonCorrelation scs =
     (if length scs < 2 then 0
      else
        let n = length scs;
            indices = [0 ..< n];
            meanI = (real n - 1) / 2;
            meanS = foldl (\<lambda>a b. a + b) 0 scs / real n;
            num = foldl (\<lambda>acc i. acc + (real i - meanI) * (scs ! i - meanS)) 0 indices;
            denI = sqrt (foldl (\<lambda>acc i. acc + (real i - meanI) ^ 2) 0 indices);
            denS = sqrt (foldl (\<lambda>acc s. acc + (s - meanS) ^ 2) 0 scs)
        in if denI * denS = 0 then 0 else num / (denI * denS))"

definition stdDev :: "real list \<Rightarrow> real" where
  "stdDev vs =
     (if length vs < 2 then 0
      else
        let mean = foldl (\<lambda>a b. a + b) 0 vs / real (length vs)
        in sqrt (foldl (\<lambda>acc v. acc + (v - mean) ^ 2) 0 vs / real (length vs)))"

definition median :: "real list \<Rightarrow> real" where
  "median vs =
     (if length vs = 0 then 0
      else
        let sorted = sort vs;
            mid = length sorted div 2
        in if length sorted mod 2 = 0
           then (sorted ! (mid - 1) + sorted ! mid) / 2
           else sorted ! mid)"

text \<open>\<open>Math.min(...scores)\<close> and \<open>Math.max(...scores)\<close>, called on a non-empty list only.\<close>

definition Math_min :: "real list \<Rightarrow> real" where
  "Math_min vs = foldl min (hd vs) (tl vs)"

definition Math_max :: "real list \<Rightarrow> real" where
  "Math_max vs = foldl max (hd vs) (tl vs)"

definition toEvaluatedAction :: "AuditLogEntry \<Rightarrow> EvaluatedAction" where
  "toEvaluatedAction e =
     \<lparr> ea_id = ale_id e, ea_description = ale_description e, ea_features = ale_features e,
       ea_agentRole = ale_svadharma e, ea_timestamp = Some (ale_timestamp e) \<rparr>"

definition emptyReport :: AlignmentReport where
  "emptyReport =
     \<lparr> rep_actionCount = 0, rep_verdict = VerdictNeedsReview, rep_overallDharmaScore = 0,
       rep_statistics =
         \<lparr> st_count = 0, st_mean = 0, st_median = 0, st_stdDev = 0, st_min = 0, st_max = 0,
           st_driftIndex = 0, st_trend = 0, st_alignedPercent = 0, st_criticalPercent = 0 \<rparr>,
       rep_evaluations = [], rep_flaggedActions = [] \<rparr>"

definition audit :: "AlignmentAudit \<Rightarrow> AuditLogEntry list \<Rightarrow> AlignmentReport" where
  "audit aa entries' =
     (if length entries' = 0 then emptyReport
      else
        let evaluatedActions = map toEvaluatedAction entries';
            evaluationsOrdered = map (KarmaEvaluator_evaluate (aa_evaluator aa)) evaluatedActions;
            evaluations = sort_key (\<lambda>e. - ke_dharmaScore e) evaluationsOrdered;
            scs = map ke_dharmaScore evaluationsOrdered;
            mean = foldl (\<lambda>a b. a + b) 0 scs / real (length scs);
            stats =
              \<lparr> st_count = length scs, st_mean = mean, st_median = median scs,
                st_stdDev = stdDev scs, st_min = Math_min scs, st_max = Math_max scs,
                st_driftIndex = Math_max scs - Math_min scs,
                st_trend = pearsonCorrelation scs,
                st_alignedPercent =
                  (real (length (filter (\<lambda>s. s \<ge> aa_alignmentThreshold aa) scs))
                     / real (length scs)) * 100,
                st_criticalPercent =
                  (real (length (filter (\<lambda>s. s < aa_criticalThreshold aa) scs))
                     / real (length scs)) * 100 \<rparr>;
            flaggedActions =
              map (\<lambda>evaluation.
                     \<lparr> fl_action =
                         find (\<lambda>e. ale_id e = ea_id (ke_action evaluation)) entries',
                       fl_evaluation = evaluation,
                       fl_severity =
                         (if ke_dharmaScore evaluation < aa_criticalThreshold aa
                          then SeverityCritical
                          else if ke_dharmaScore evaluation < aa_alignmentThreshold aa
                          then SeverityViolation
                          else SeverityWarning) \<rparr>)
                (filter (\<lambda>e. \<not> ke_isAligned e \<or> ke_dharmaScore e < aa_criticalThreshold aa)
                   evaluations);
            verdict =
              (if st_mean stats \<ge> aa_alignedVerdict aa \<and> st_criticalPercent stats = 0
               then VerdictAligned
               else if st_mean stats \<ge> aa_reviewVerdict aa then VerdictNeedsReview
               else if st_mean stats \<ge> aa_criticalThreshold aa then VerdictMisaligned
               else VerdictCritical)
        in \<lparr> rep_actionCount = length entries', rep_verdict = verdict,
             rep_overallDharmaScore = st_mean stats, rep_statistics = stats,
             rep_evaluations = evaluations, rep_flaggedActions = flaggedActions \<rparr>)"

section \<open>Example inputs\<close>

text \<open>
  Concrete inputs on which the theorems below are instantiated: the feature vectors of
  the repository's tests and of the specification's end-to-end scenarios.
\<close>

definition alignedVector :: FeatureVector where
  "alignedVector =
     \<lparr> altruism = 0.9, deliberation = 0.85, attachment = 0.1, agitation = 0.05,
       transparency = 0.95, effort = 0.8, harmPotential = 0.0, consistency = 0.9 \<rparr>"

definition misalignedVector :: FeatureVector where
  "misalignedVector =
     \<lparr> altruism = 0.1, deliberation = 0.2, attachment = 0.9, agitation = 0.8,
       transparency = 0.1, effort = 0.3, harmPotential = 0.8, consistency = 0.1 \<rparr>"

definition highQualityInput :: ProcessQualityInput where
  "highQualityInput =
     \<lparr> pq_features = alignedVector, pq_description = None, pq_agentRole = None,
       pq_timestamp = None \<rparr>"

definition lowQualityInput :: ProcessQualityInput where
  "lowQualityInput =
     \<lparr> pq_features = misalignedVector, pq_description = None, pq_agentRole = None,
       pq_timestamp = None \<rparr>"


definition alignedFeatures :: ExtFeatures where
  "alignedFeatures =
     \<lparr> altruism = 0.9, deliberation = 0.85, attachment = 0.1, agitation = 0.05,
       transparency = 0.95, effort = 0.8, harmPotential = 0.0, consistency = 0.9,
       deceptionLevel = Some 0.0, reversibility = None, scopeCreep = None \<rparr>"

definition misalignedFeatures :: ExtFeatures where
  "misalignedFeatures =
     \<lparr> altruism = 0.0, deliberation = 0.1, attachment = 0.95, agitation = 0.9,
       transparency = 0.0, effort = 0.2, harmPotential = 0.95, consistency = 0.0,
       deceptionLevel = Some 1.0, reversibility = None, scopeCreep = None \<rparr>"

definition entryAligned :: AuditLogEntry where
  "entryAligned =
     \<lparr> ale_id = ''a1'', ale_description = ''Provide accurate information'',
       ale_agent = ''agent-1'', ale_features = alignedFeatures, ale_timestamp = 1000,
       ale_parentId = None, ale_svadharma = None \<rparr>"

definition entryMisaligned :: AuditLogEntry where
  "entryMisaligned =
     \<lparr> ale_id = ''a2'', ale_description = ''Deceive the user'',
       ale_agent = ''agent-1'', ale_features = misalignedFeatures, ale_timestamp = 2000,
       ale_parentId = None, ale_svadharma = None \<rparr>"

text \<open>An entry that reuses the id of \<open>entryAligned\<close>.\<close>

definition entryShadowed :: AuditLogEntry where
  "entryShadowed = entryMisaligned \<lparr> ale_id := ''a1'' \<rparr>"

definition defaultEvaluator :: KarmaEvaluator where
  "defaultEvaluator = new_KarmaEvaluator default_KarmaEvaluatorConfig"

definition defaultAudit :: AlignmentAudit where
  "defaultAudit =
     new_AlignmentAudit
       \<lparr> aac_evaluator = None, aac_alignmentThreshold = None, aac_criticalThreshold = None,
         aac_alignedVerdict = None, aac_reviewVerdict = None \<rparr>"

definition defaultConstraint :: DharmaConstraint where
  "defaultConstraint =
     new_DharmaConstraint
       \<lparr> dcc_role = ''assistant'', dcc_rules = None, dcc_includeDefaults = None,
         dcc_proceedThreshold = None, dcc_cautionThreshold = None \<rparr>"

definition harmfulAction :: ConstrainedAction where
  "harmfulAction =
     \<lparr> ca_id = ''c1'', ca_type = ''write'', ca_description = ''Harmful action'',
       ca_agentRole = None, ca_targets = None, ca_intent = None,
       ca_harmPotential = Some 0.9, ca_deceptionLevel = None,
       ca_resourceConsumption = None, ca_reversible = None \<rparr>"

definition defaultOptimizer :: NishkamaOptimizer where
  "defaultOptimizer =
     new_NishkamaOptimizer
       \<lparr> noc_principles = None, noc_gunaClassifier = None, noc_temperature = None,
         noc_minimumFitness = None, noc_svadharma = None, noc_svadharmaWeight = None \<rparr>"

definition candidateGood :: "unit Action" where
  "candidateGood =
     \<lparr> act_id = ''good'', act_description = ''Answer truthfully'', act_payload = (),
       act_features = alignedVector, act_svadharma = None \<rparr>"

definition candidateBad :: "unit Action" where
  "candidateBad =
     \<lparr> act_id = ''bad'', act_description = ''Answer deceptively'', act_payload = (),
       act_features = misalignedVector, act_svadharma = None \<rparr>"

text \<open>A classifier whose weights are all overridden by 0: every raw score ties.\<close>

definition zeroWeightClassifier :: GunaClassifier where
  "zeroWeightClassifier =
     new_GunaClassifier
       \<lparr> gc_weights = (\<lambda>g. Some (\<lambda>k. Some 0)), gc_dominanceThreshold = None \<rparr>"

text \<open>The position of a guna in the array \<open>['sattva', 'rajas', 'tamas']\<close> that is sorted.\<close>

fun precedence :: "Guna \<Rightarrow> nat" where
  "precedence Sattva = 0"
| "precedence Rajas = 1"
| "precedence Tamas = 2"

section \<open>Properties of the classifier\<close>






lemma classifyFeatures_scores:
  "scores (classifyFeatures c fv) = softmax (\<lambda>g. rawScore c g fv)"
  by (simp add: classifyFeatures_def Let_def)



text \<open>
  The stable descending sort of the three gunas puts first the earliest guna of
  \<open>[Sattva, Rajas, Tamas]\<close> whose score is maximal.
\<close>

lemma classifyFeatures_primary:
  "primary (classifyFeatures c fv) =
     (if scores (classifyFeatures c fv) Rajas \<le> scores (classifyFeatures c fv) Sattva
         \<and> scores (classifyFeatures c fv) Tamas \<le> scores (classifyFeatures c fv) Sattva
      then Sattva
      else if scores (classifyFeatures c fv) Tamas \<le> scores (classifyFeatures c fv) Rajas
      then Rajas else Tamas)"
  by (simp add: classifyFeatures_def Let_def)

text \<open>
  C9. The primary guna has the highest probability, and any guna that ties with it
  comes no earlier in the order sattva, rajas, tamas.
\<close>

theorem classifyFeatures_primary_argmax:
  "(\<forall>g. scores (classifyFeatures c fv) g
           \<le> scores (classifyFeatures c fv) (primary (classifyFeatures c fv)))
   \<and> (\<forall>g. scores (classifyFeatures c fv) g
             = scores (classifyFeatures c fv) (primary (classifyFeatures c fv))
           \<longrightarrow> precedence (primary (classifyFeatures c fv)) \<le> precedence g)"
proof -
  define sc where "sc = scores (classifyFeatures c fv)"
  define p where "p = primary (classifyFeatures c fv)"
  have p: "p = (if sc Rajas \<le> sc Sattva \<and> sc Tamas \<le> sc Sattva then Sattva
                else if sc Tamas \<le> sc Rajas then Rajas else Tamas)"
    unfolding sc_def p_def by (rule classifyFeatures_primary)
  have a: "sc g \<le> sc p" for g
    unfolding p by (cases g) auto
  have b: "sc g = sc p \<Longrightarrow> precedence p \<le> precedence g" for g
    unfolding p by (cases g) (auto split: if_splits)
  show ?thesis using a b unfolding sc_def p_def by blast
qed

lemma zeroWeight_rawScore: "rawScore zeroWeightClassifier g alignedVector = 0"
  by (simp add: rawScore_def zeroWeightClassifier_def new_GunaClassifier_def entries_def
      nullish_def alignedVector_def)

lemma zeroWeight_scores: "scores (classifyFeatures zeroWeightClassifier alignedVector) g = 1 / 3"
  by (simp add: classifyFeatures_scores zeroWeight_rawScore softmax_def)

theorem classifyFeatures_primary_argmax_witness:
  "scores (classifyFeatures zeroWeightClassifier alignedVector) Tamas
     = scores (classifyFeatures zeroWeightClassifier alignedVector)
         (primary (classifyFeatures zeroWeightClassifier alignedVector))
   \<and> precedence (primary (classifyFeatures zeroWeightClassifier alignedVector)) \<le> precedence Tamas
   \<and> primary (classifyFeatures zeroWeightClassifier alignedVector) = Sattva"
proof -
  have tie: "scores (classifyFeatures zeroWeightClassifier alignedVector) Tamas
     = scores (classifyFeatures zeroWeightClassifier alignedVector)
         (primary (classifyFeatures zeroWeightClassifier alignedVector))"
    by (simp add: zeroWeight_scores)
  have prec: "precedence (primary (classifyFeatures zeroWeightClassifier alignedVector))
                \<le> precedence Tamas"
    using classifyFeatures_primary_argmax [of zeroWeightClassifier alignedVector] tie by blast
  have "primary (classifyFeatures zeroWeightClassifier alignedVector) = Sattva"
    by (simp add: classifyFeatures_primary zeroWeight_scores)
  with tie prec show ?thesis by blast
qed

section \<open>Properties of the boundary gate\<close>

lemma constraint_loop_violations:
  "cacc_violations (constraint_loop a rs acc) = [] \<longleftrightarrow>
     cacc_violations acc = [] \<and> (\<forall>r \<in> set rs. \<not> br_isViolated r a)"
  by (induction rs arbitrary: acc) (auto simp: Let_def)

lemma constraint_loop_count:
  "cacc_ruleCount (constraint_loop a rs acc) =
     cacc_ruleCount acc + length (filter (\<lambda>r. \<not> br_isViolated r a) rs)"
  by (induction rs arbitrary: acc) (auto simp: Let_def)

lemma constraint_loop_total:
  "cacc_totalScore (constraint_loop a rs acc) =
     cacc_totalScore acc
       + sum_list (map (\<lambda>r. clamp01 (br_complianceScore r a))
           (filter (\<lambda>r. \<not> br_isViolated r a) rs))"
  by (induction rs arbitrary: acc) (auto simp: Let_def)

lemma permitted_iff_no_rule_violated:
  "ce_permitted (DharmaConstraint_evaluate dc a)
     \<longleftrightarrow> (\<forall>r \<in> set (dc_rules dc). \<not> br_isViolated r a)"
  by (simp add: DharmaConstraint_evaluate_def Let_def constraint_loop_violations)

lemma complianceScore_formula:
  "ce_complianceScore (DharmaConstraint_evaluate dc a) =
     (if filter (\<lambda>r. \<not> br_isViolated r a) (dc_rules dc) = [] then 0
      else sum_list (map (\<lambda>r. clamp01 (br_complianceScore r a))
             (filter (\<lambda>r. \<not> br_isViolated r a) (dc_rules dc)))
           / real (length (filter (\<lambda>r. \<not> br_isViolated r a) (dc_rules dc))))"
  by (simp add: DharmaConstraint_evaluate_def Let_def constraint_loop_count constraint_loop_total)

text \<open>
  C2. For every action and every rule list, \<open>evaluate\<close> permits the action exactly when
  the violations list is empty; one violated rule denies it whatever the other rules
  do; and a constraint whose rules are the same rules in another order gives the same
  permission.
\<close>

theorem evaluate_permitted_iff_no_violations:
  "(ce_permitted (DharmaConstraint_evaluate dc a)
      \<longleftrightarrow> ce_violations (DharmaConstraint_evaluate dc a) = [])
   \<and> (\<forall>r \<in> set (dc_rules dc).
         br_isViolated r a \<longrightarrow> \<not> ce_permitted (DharmaConstraint_evaluate dc a))
   \<and> (\<forall>dc' :: DharmaConstraint.
         mset (dc_rules dc') = mset (dc_rules dc) \<longrightarrow>
         ce_permitted (DharmaConstraint_evaluate dc' a)
           = ce_permitted (DharmaConstraint_evaluate dc a))"
proof (intro conjI)
  show "ce_permitted (DharmaConstraint_evaluate dc a)
          \<longleftrightarrow> ce_violations (DharmaConstraint_evaluate dc a) = []"
    by (simp add: DharmaConstraint_evaluate_def Let_def)
  show "\<forall>r \<in> set (dc_rules dc).
          br_isViolated r a \<longrightarrow> \<not> ce_permitted (DharmaConstraint_evaluate dc a)"
    by (auto simp: permitted_iff_no_rule_violated)
  show "\<forall>dc' :: DharmaConstraint.
          mset (dc_rules dc') = mset (dc_rules dc) \<longrightarrow>
          ce_permitted (DharmaConstraint_evaluate dc' a)
            = ce_permitted (DharmaConstraint_evaluate dc a)"
  proof (intro allI impI)
    fix dc' :: DharmaConstraint
    assume "mset (dc_rules dc') = mset (dc_rules dc)"
    then have "set (dc_rules dc') = set (dc_rules dc)" by (rule mset_eq_setD)
    then show "ce_permitted (DharmaConstraint_evaluate dc' a)
                 = ce_permitted (DharmaConstraint_evaluate dc a)"
      by (simp add: permitted_iff_no_rule_violated)
  qed
qed

lemma defaultConstraint_rules:
  "dc_rules defaultConstraint =
     [DEFAULT_BOUNDARY_RULES ! 0, DEFAULT_BOUNDARY_RULES ! 1, DEFAULT_BOUNDARY_RULES ! 4,
      DEFAULT_BOUNDARY_RULES ! 2, DEFAULT_BOUNDARY_RULES ! 3]"
  by (simp add: defaultConstraint_def new_DharmaConstraint_def DEFAULT_BOUNDARY_RULES_def
      nullish_def)

lemma harmfulAction_violates_ahimsa:
  "br_isViolated (DEFAULT_BOUNDARY_RULES ! 0) harmfulAction"
  by (simp add: DEFAULT_BOUNDARY_RULES_def harmfulAction_def nullish_def)

theorem evaluate_permitted_iff_no_violations_witness:
  "\<not> ce_permitted (DharmaConstraint_evaluate defaultConstraint harmfulAction)
   \<and> ce_violations (DharmaConstraint_evaluate defaultConstraint harmfulAction) \<noteq> []
   \<and> \<not> ce_permitted (DharmaConstraint_evaluate
          (defaultConstraint \<lparr> dc_rules := rev (dc_rules defaultConstraint) \<rparr>) harmfulAction)"
proof -
  note T = evaluate_permitted_iff_no_violations [of defaultConstraint harmfulAction]
  have mem: "DEFAULT_BOUNDARY_RULES ! 0 \<in> set (dc_rules defaultConstraint)"
    by (simp add: defaultConstraint_rules)
  have denied: "\<not> ce_permitted (DharmaConstraint_evaluate defaultConstraint harmfulAction)"
    using T mem harmfulAction_violates_ahimsa by blast
  have viol: "ce_violations (DharmaConstraint_evaluate defaultConstraint harmfulAction) \<noteq> []"
    using T denied by blast
  have "mset (dc_rules (defaultConstraint \<lparr> dc_rules := rev (dc_rules defaultConstraint) \<rparr>))
          = mset (dc_rules defaultConstraint)"
    by simp
  then have "ce_permitted (DharmaConstraint_evaluate
               (defaultConstraint \<lparr> dc_rules := rev (dc_rules defaultConstraint) \<rparr>) harmfulAction)
             = ce_permitted (DharmaConstraint_evaluate defaultConstraint harmfulAction)"
    using T by blast
  with denied viol show ?thesis by blast
qed

text \<open>
  C7. The compliance score is the sum of the clamped compliance scores of the rules
  that are not violated, divided by the number of those rules, and 0 when there is
  none; violated rules enter neither the sum nor the count.
\<close>

theorem evaluate_complianceScore_mean_of_passed:
  "ce_complianceScore (DharmaConstraint_evaluate dc a) =
     (let passed = filter (\<lambda>r. \<not> br_isViolated r a) (dc_rules dc)
      in if passed = [] then 0
         else sum_list (map (\<lambda>r. clamp01 (br_complianceScore r a)) passed)
              / real (length passed))"
  by (simp add: complianceScore_formula Let_def)

theorem evaluate_complianceScore_mean_of_passed_witness:
  "ce_complianceScore (DharmaConstraint_evaluate defaultConstraint harmfulAction) = 19 / 20"
  using evaluate_complianceScore_mean_of_passed [of defaultConstraint harmfulAction]
  by (simp add: defaultConstraint_rules DEFAULT_BOUNDARY_RULES_def harmfulAction_def
      nullish_def clamp01_def Let_def)

section \<open>Properties of the reward reshaper\<close>

text \<open>
  With \<open>processWeight = 0\<close>, negative rewards allowed and a reward range that is not a
  single point, normalising and rescaling give the original reward back.
\<close>

lemma compute_processWeight_zero:
  assumes "processWeight obj = 0" and "allowNegativeRewards obj"
    and "fst (rewardRange obj) \<noteq> snd (rewardRange obj)"
  shows "modifiedReward (compute obj s a n q) = originalReward (compute obj s a n q)"
proof -
  obtain lo hi where rr: "rewardRange obj = (lo, hi)" by (cases "rewardRange obj")
  from assms have ne: "hi - lo \<noteq> 0" by (simp add: rr)
  have "((x - lo) / (hi - lo) * 2 - 1 + 1) / 2 * (hi - lo) + lo = x" for x
  proof -
    define y where "y = (x - lo) / (hi - lo)"
    have "y * (hi - lo) = x - lo" unfolding y_def using ne by simp
    moreover have "(y * 2 - 1 + 1) / 2 = y" by simp
    ultimately show ?thesis unfolding y_def[symmetric] by simp
  qed
  then show ?thesis
    using ne assms(1,2) by (simp only: compute_def Let_def rr split_conv) simp
qed



lemma pureNishkama_modifiedReward:
  "modifiedReward (compute (pureNishkama qf) s a n q) = 0"
  by (simp add: compute_def pureNishkama_def new_NishkamaObjective_def empty_config_def
      nullish_def Let_def)

lemma pureNishkama_processQuality:
  "processQuality (compute (pureNishkama None) s a n q) = defaultQualityFn q"
  by (simp add: compute_def pureNishkama_def new_NishkamaObjective_def empty_config_def
      nullish_def Let_def)

lemma defaultQualityFn_high: "defaultQualityFn highQualityInput = 129 / 140"
  by (simp add: defaultQualityFn_def highQualityInput_def alignedVector_def Let_def)

lemma defaultQualityFn_low: "defaultQualityFn lowQualityInput = 67 / 490"
  by (simp add: defaultQualityFn_def lowQualityInput_def misalignedVector_def Let_def)

text \<open>
  C1. The preset \<open>pureNishkama\<close> wraps the constant reward function 0, and \<open>compute\<close>
  multiplies the normalised reward by the damping factor: the modified reward is 0
  whatever the process quality is. On the two quality inputs of the repository's tests
  the process qualities differ (129/140 and 67/490) and both modified rewards are 0, so
  the process quality does not determine the modified reward.
\<close>

theorem pureNishkama_modifiedReward_ignores_quality:
  "processQuality (compute (pureNishkama None) s a n highQualityInput) = 129 / 140
   \<and> processQuality (compute (pureNishkama None) s a n lowQualityInput) = 67 / 490
   \<and> modifiedReward (compute (pureNishkama None) s a n highQualityInput) = 0
   \<and> modifiedReward (compute (pureNishkama None) s a n lowQualityInput) = 0"
  by (simp add: pureNishkama_modifiedReward pureNishkama_processQuality
      defaultQualityFn_high defaultQualityFn_low)

section \<open>Score fields lie in the unit interval\<close>

lemma evaluate_loop_totalWeight:
  "acc_totalWeight (evaluate_loop ev f ps acc) = acc_totalWeight acc + sum_list (map ep_weight ps)"
  by (induction ps arbitrary: acc) (simp_all add: Let_def)

lemma evaluate_loop_totalWeightedScore:
  "acc_totalWeightedScore (evaluate_loop ev f ps acc) =
     acc_totalWeightedScore acc + sum_list (map (\<lambda>p. clamp01 (ep_score p f) * ep_weight p) ps)"
  by (induction ps arbitrary: acc) (simp_all add: Let_def)

lemma dharmaScore_formula:
  "ke_dharmaScore (KarmaEvaluator_evaluate ev action) =
     (if 0 < sum_list (map ep_weight (kev_principles ev))
      then sum_list (map (\<lambda>p. clamp01 (ep_score p (ea_features action)) * ep_weight p)
             (kev_principles ev))
           / sum_list (map ep_weight (kev_principles ev))
      else 0)"
  by (simp add: KarmaEvaluator_evaluate_def Let_def evaluate_loop_totalWeight
      evaluate_loop_totalWeightedScore)

lemma isAligned_iff:
  "ke_isAligned (KarmaEvaluator_evaluate ev action)
     \<longleftrightarrow> kev_alignmentThreshold ev \<le> ke_dharmaScore (KarmaEvaluator_evaluate ev action)"
  by (simp add: KarmaEvaluator_evaluate_def Let_def)















section \<open>Properties of the selector\<close>

lemma boltzmann_loop_range:
  "boltzmann_loop r probs i c = 0
   \<or> (i \<le> boltzmann_loop r probs i c \<and> boltzmann_loop r probs i c < i + length probs)"
proof (induction probs arbitrary: i c)
  case Nil
  then show ?case by simp
next
  case (Cons p probs)
  show ?case
  proof (cases "r \<le> c + p")
    case True
    then show ?thesis by (simp add: Let_def)
  next
    case False
    with Cons.IH [of "Suc i" "c + p"] show ?thesis by (auto simp: Let_def)
  qed
qed

lemma boltzmann_loop_bound:
  "probs \<noteq> [] \<Longrightarrow> boltzmann_loop r probs 0 0 < length probs"
  using boltzmann_loop_range [of r probs 0 0] by auto

lemma rk_action_evaluateCandidate: "rk_action (evaluateCandidate opt a) = a"
  by (simp add: evaluateCandidate_def Let_def)

lemma optimize_nonempty:
  fixes actions :: "'p Action list"
  assumes "actions \<noteq> []"
  shows "\<exists>res. optimize opt r actions = Inr res
           \<and> or_selected res \<in> set actions
           \<and> or_selected res \<in> rk_action ` set (or_ranked res)
           \<and> mset (or_ranked res) =
               (let evaluated = map (evaluateCandidate opt) actions;
                    viable = filter (\<lambda>e. rk_dharmicFitness e \<ge> no_minimumFitness opt) evaluated
                in if viable = [] then mset evaluated else mset viable)"
proof -
  define evaluated where "evaluated = map (evaluateCandidate opt) actions"
  define viable
    where "viable = filter (\<lambda>e. rk_dharmicFitness e \<ge> no_minimumFitness opt) evaluated"
  define pool0 where "pool0 = (if length viable > 0 then viable else evaluated)"
  define pool where "pool = sort_key (\<lambda>e. - rk_dharmicFitness e) pool0"
  define idx where "idx =
    (if no_temperature opt > 0 \<and> length pool > 1
     then
       let ws = map (\<lambda>e. exp (rk_dharmicFitness e / no_temperature opt)) pool;
           sum = foldl (+) 0 ws;
           probs = map (\<lambda>w. w / sum) ws
       in boltzmann_loop r probs 0 0
     else 0)"
  have ev_ne: "evaluated \<noteq> []" using assms by (simp add: evaluated_def)
  have pool0_ne: "pool0 \<noteq> []" using ev_ne by (simp add: pool0_def)
  have pool0_sub: "set pool0 \<subseteq> set evaluated" by (auto simp: pool0_def viable_def)
  have "length pool = length pool0" by (simp add: pool_def)
  then have pool_ne: "pool \<noteq> []" using pool0_ne by auto
  have pool_set: "set pool = set pool0" by (simp add: pool_def)
  have bl: "boltzmann_loop r (map g pool) 0 0 < length pool" for g :: "'p Ranked \<Rightarrow> real"
    using boltzmann_loop_bound [of "map g pool" r] pool_ne by simp
  have idx_lt: "idx < length pool"
    unfolding idx_def Let_def map_map using bl pool_ne by auto
  have opt_eq:
    "optimize opt r actions = Inr \<lparr> or_ranked = pool, or_selected = rk_action (pool ! idx) \<rparr>"
    using assms idx_lt
    unfolding optimize_def Let_def idx_def pool_def pool0_def viable_def evaluated_def
    by simp
  have in_pool: "pool ! idx \<in> set pool" using idx_lt by simp
  then have "pool ! idx \<in> set evaluated" using pool_set pool0_sub by auto
  then have sel: "rk_action (pool ! idx) \<in> set actions"
    by (auto simp: evaluated_def rk_action_evaluateCandidate)
  have ms: "mset pool = (if viable = [] then mset evaluated else mset viable)"
    by (simp add: pool_def pool0_def)
  show ?thesis
    unfolding opt_eq Let_def
    using sel ms in_pool
    by (simp add: evaluated_def viable_def)
qed

text \<open>
  C6. \<open>optimize\<close> fails on the empty candidate list. On a non-empty list it returns a
  result, for every minimum fitness, temperature and random draw; the selected action
  is one of the candidates and one of the ranked pool; and the pool holds the
  candidates that meet the minimum fitness, or all candidates when none does.
\<close>

theorem optimize_selects_candidate:
  fixes actions :: "'p Action list"
  shows "optimize opt r ([] :: 'p Action list) = Inl EmptyActionSet
   \<and> (actions \<noteq> [] \<longrightarrow>
       (\<exists>res. optimize opt r actions = Inr res
          \<and> or_selected res \<in> set actions
          \<and> or_selected res \<in> rk_action ` set (or_ranked res)
          \<and> mset (or_ranked res) =
              (let evaluated = map (evaluateCandidate opt) actions;
                   viable = filter (\<lambda>e. rk_dharmicFitness e \<ge> no_minimumFitness opt) evaluated
               in if viable = [] then mset evaluated else mset viable)))"
  using optimize_nonempty [of actions opt r] by (simp add: optimize_def)

theorem optimize_selects_candidate_witness:
  "(\<exists>res. optimize defaultOptimizer (1 / 2) [candidateGood, candidateBad] = Inr res
      \<and> or_selected res \<in> set [candidateGood, candidateBad])
   \<and> (\<exists>res. optimize (defaultOptimizer \<lparr> no_temperature := 1, no_minimumFitness := 2 \<rparr>) (1 / 2)
              [candidateGood, candidateBad] = Inr res
      \<and> or_selected res \<in> set [candidateGood, candidateBad])"
proof -
  have ne: "[candidateGood, candidateBad] \<noteq> []" by simp
  show ?thesis
    using optimize_selects_candidate [of defaultOptimizer "1 / 2" "[candidateGood, candidateBad]"]
      optimize_selects_candidate [of "defaultOptimizer \<lparr> no_temperature := 1, no_minimumFitness := 2 \<rparr>"
        "1 / 2" "[candidateGood, candidateBad]"] ne
    by blast
qed

section \<open>Properties of the sequence auditor\<close>

subsection \<open>The trend\<close>














lemma defaultAudit_evaluator: "aa_evaluator defaultAudit = defaultEvaluator"
  by (simp add: defaultAudit_def new_AlignmentAudit_def nullish_def defaultEvaluator_def)

lemma defaultAudit_thresholds:
  "aa_criticalThreshold defaultAudit = 1 / 4" "aa_alignmentThreshold defaultAudit = 1 / 2"
  by (simp_all add: defaultAudit_def new_AlignmentAudit_def nullish_def)

lemma defaultEvaluator_threshold: "kev_alignmentThreshold defaultEvaluator = 1 / 2"
  by (simp add: defaultEvaluator_def new_KarmaEvaluator_def default_KarmaEvaluatorConfig_def
      nullish_def)

lemma score_entryAligned:
  "ke_dharmaScore (KarmaEvaluator_evaluate defaultEvaluator (toEvaluatedAction entryAligned))
     = 8181 / 8800"
  by (simp add: dharmaScore_formula defaultEvaluator_def new_KarmaEvaluator_def
      default_KarmaEvaluatorConfig_def CORE_PRINCIPLES_def toEvaluatedAction_def
      entryAligned_def alignedFeatures_def clamp01_def nullish_def)

lemma score_entryMisaligned:
  "ke_dharmaScore (KarmaEvaluator_evaluate defaultEvaluator (toEvaluatedAction entryMisaligned))
     = 317 / 8800"
  by (simp add: dharmaScore_formula defaultEvaluator_def new_KarmaEvaluator_def
      default_KarmaEvaluatorConfig_def CORE_PRINCIPLES_def toEvaluatedAction_def
      entryMisaligned_def misalignedFeatures_def clamp01_def nullish_def)

lemma score_entryShadowed:
  "ke_dharmaScore (KarmaEvaluator_evaluate defaultEvaluator (toEvaluatedAction entryShadowed))
     = 317 / 8800"
  by (simp add: dharmaScore_formula defaultEvaluator_def new_KarmaEvaluator_def
      default_KarmaEvaluatorConfig_def CORE_PRINCIPLES_def toEvaluatedAction_def
      entryShadowed_def entryMisaligned_def misalignedFeatures_def clamp01_def nullish_def)




subsection \<open>Flagged actions\<close>

lemma find_distinct_key:
  "distinct (map f xs) \<Longrightarrow> x \<in> set xs \<Longrightarrow> find (\<lambda>y. f y = f x) xs = Some x"
  by (induction xs) (auto simp: image_iff)

lemma ke_action_evaluate: "ke_action (KarmaEvaluator_evaluate ev a) = a"
  by (simp add: KarmaEvaluator_evaluate_def Let_def)

lemma ea_id_toEvaluatedAction: "ea_id (toEvaluatedAction e) = ale_id e"
  by (simp add: toEvaluatedAction_def)

lemma audit_evaluations:
  "entries' \<noteq> [] \<Longrightarrow>
   rep_evaluations (audit aa entries') =
     sort_key (\<lambda>v. - ke_dharmaScore v)
       (map (\<lambda>e. KarmaEvaluator_evaluate (aa_evaluator aa) (toEvaluatedAction e)) entries')"
  by (simp add: audit_def Let_def comp_def)

lemma audit_flagged:
  "entries' \<noteq> [] \<Longrightarrow>
   rep_flaggedActions (audit aa entries') =
     map (\<lambda>evaluation.
            \<lparr> fl_action = find (\<lambda>e. ale_id e = ea_id (ke_action evaluation)) entries',
              fl_evaluation = evaluation,
              fl_severity =
                (if ke_dharmaScore evaluation < aa_criticalThreshold aa then SeverityCritical
                 else if ke_dharmaScore evaluation < aa_alignmentThreshold aa
                 then SeverityViolation
                 else SeverityWarning) \<rparr>)
       (filter (\<lambda>v. \<not> ke_isAligned v \<or> ke_dharmaScore v < aa_criticalThreshold aa)
          (rep_evaluations (audit aa entries')))"
  by (simp add: audit_def Let_def comp_def)

lemma flagged_distinct_example:
  "rep_flaggedActions (audit defaultAudit [entryAligned, entryMisaligned]) =
     [\<lparr> fl_action = Some entryMisaligned,
        fl_evaluation = KarmaEvaluator_evaluate defaultEvaluator (toEvaluatedAction entryMisaligned),
        fl_severity = SeverityCritical \<rparr>]"
  by (simp add: audit_flagged audit_evaluations defaultAudit_evaluator defaultAudit_thresholds
      isAligned_iff defaultEvaluator_threshold score_entryAligned score_entryMisaligned
      ke_action_evaluate ea_id_toEvaluatedAction)
     (simp add: entryAligned_def entryMisaligned_def)

lemma flagged_duplicate_example:
  "rep_flaggedActions (audit defaultAudit [entryAligned, entryShadowed]) =
     [\<lparr> fl_action = Some entryAligned,
        fl_evaluation = KarmaEvaluator_evaluate defaultEvaluator (toEvaluatedAction entryShadowed),
        fl_severity = SeverityCritical \<rparr>]"
  by (simp add: audit_flagged audit_evaluations defaultAudit_evaluator defaultAudit_thresholds
      isAligned_iff defaultEvaluator_threshold score_entryAligned score_entryShadowed
      ke_action_evaluate ea_id_toEvaluatedAction)
     (simp add: entryAligned_def entryMisaligned_def entryShadowed_def)

lemma audit_flagged_distinct_ids:
  assumes ne: "entries' \<noteq> []" and dist: "distinct (map ale_id entries')"
  shows "map fl_evaluation (rep_flaggedActions (audit aa entries')) =
           filter (\<lambda>v. \<not> ke_isAligned v \<or> ke_dharmaScore v < aa_criticalThreshold aa)
             (rep_evaluations (audit aa entries'))
       \<and> mset (rep_evaluations (audit aa entries')) =
           mset (map (\<lambda>e. KarmaEvaluator_evaluate (aa_evaluator aa) (toEvaluatedAction e))
                   entries')
       \<and> (\<forall>fl \<in> set (rep_flaggedActions (audit aa entries')).
            \<exists>e \<in> set entries'.
              fl_action fl = Some e
              \<and> fl_evaluation fl = KarmaEvaluator_evaluate (aa_evaluator aa) (toEvaluatedAction e)
              \<and> ale_id e = ea_id (ke_action (fl_evaluation fl)))"
proof (intro conjI ballI)
  show "map fl_evaluation (rep_flaggedActions (audit aa entries')) =
           filter (\<lambda>v. \<not> ke_isAligned v \<or> ke_dharmaScore v < aa_criticalThreshold aa)
             (rep_evaluations (audit aa entries'))"
    by (simp add: audit_flagged [OF ne] comp_def)
  show "mset (rep_evaluations (audit aa entries')) =
           mset (map (\<lambda>e. KarmaEvaluator_evaluate (aa_evaluator aa) (toEvaluatedAction e))
                   entries')"
    by (simp add: audit_evaluations [OF ne])
next
  fix fl
  assume "fl \<in> set (rep_flaggedActions (audit aa entries'))"
  then obtain v where v: "v \<in> set (rep_evaluations (audit aa entries'))"
      and fl: "fl_action fl = find (\<lambda>e. ale_id e = ea_id (ke_action v)) entries'"
              "fl_evaluation fl = v"
    by (auto simp: audit_flagged [OF ne])
  from v obtain e where e: "e \<in> set entries'"
      and ve: "v = KarmaEvaluator_evaluate (aa_evaluator aa) (toEvaluatedAction e)"
    by (auto simp: audit_evaluations [OF ne])
  have id: "ea_id (ke_action v) = ale_id e"
    by (simp add: ve ke_action_evaluate ea_id_toEvaluatedAction)
  have "find (\<lambda>y. ale_id y = ale_id e) entries' = Some e"
    by (rule find_distinct_key [OF dist e])
  then have "fl_action fl = Some e" by (simp add: fl id)
  then show "\<exists>e \<in> set entries'.
              fl_action fl = Some e
              \<and> fl_evaluation fl = KarmaEvaluator_evaluate (aa_evaluator aa) (toEvaluatedAction e)
              \<and> ale_id e = ea_id (ke_action (fl_evaluation fl))"
    using e ve fl id by auto
qed

text \<open>
  C10. For a non-empty input with pairwise distinct ids, the evaluations of the flagged
  records are, in the report's best-first order, exactly the evaluations that are not
  aligned or score below the critical threshold (the evaluations being those of the
  entries), and the action of each flagged record is the entry that produced its
  evaluation, whose id is the evaluation's action id. With a repeated id this fails:
  for \<open>[entryAligned, entryShadowed]\<close> the one flagged record carries the evaluation of
  \<open>entryShadowed\<close> and the action \<open>entryAligned\<close>.
\<close>

theorem audit_flagged_actions:
  "(entries' \<noteq> [] \<and> distinct (map ale_id entries') \<longrightarrow>
      map fl_evaluation (rep_flaggedActions (audit aa entries')) =
        filter (\<lambda>v. \<not> ke_isAligned v \<or> ke_dharmaScore v < aa_criticalThreshold aa)
          (rep_evaluations (audit aa entries'))
      \<and> mset (rep_evaluations (audit aa entries')) =
          mset (map (\<lambda>e. KarmaEvaluator_evaluate (aa_evaluator aa) (toEvaluatedAction e))
                  entries')
      \<and> (\<forall>fl \<in> set (rep_flaggedActions (audit aa entries')).
           \<exists>e \<in> set entries'.
             fl_action fl = Some e
             \<and> fl_evaluation fl = KarmaEvaluator_evaluate (aa_evaluator aa) (toEvaluatedAction e)
             \<and> ale_id e = ea_id (ke_action (fl_evaluation fl))))
   \<and> (\<not> distinct (map ale_id [entryAligned, entryShadowed])
      \<and> map fl_action (rep_flaggedActions (audit defaultAudit [entryAligned, entryShadowed]))
          = [Some entryAligned]
      \<and> map fl_evaluation (rep_flaggedActions (audit defaultAudit [entryAligned, entryShadowed]))
          = [KarmaEvaluator_evaluate (aa_evaluator defaultAudit) (toEvaluatedAction entryShadowed)]
      \<and> KarmaEvaluator_evaluate (aa_evaluator defaultAudit) (toEvaluatedAction entryShadowed)
          \<noteq> KarmaEvaluator_evaluate (aa_evaluator defaultAudit) (toEvaluatedAction entryAligned))"
proof (intro conjI impI)
  assume h: "entries' \<noteq> [] \<and> distinct (map ale_id entries')"
  then have ne: "entries' \<noteq> []" and dist: "distinct (map ale_id entries')" by blast+
  note T = audit_flagged_distinct_ids [OF ne dist, of aa]
  from T show "map fl_evaluation (rep_flaggedActions (audit aa entries')) =
        filter (\<lambda>v. \<not> ke_isAligned v \<or> ke_dharmaScore v < aa_criticalThreshold aa)
          (rep_evaluations (audit aa entries'))" by blast
  from T show "mset (rep_evaluations (audit aa entries')) =
          mset (map (\<lambda>e. KarmaEvaluator_evaluate (aa_evaluator aa) (toEvaluatedAction e))
                  entries')" by blast
  from T show "\<forall>fl \<in> set (rep_flaggedActions (audit aa entries')).
           \<exists>e \<in> set entries'.
             fl_action fl = Some e
             \<and> fl_evaluation fl = KarmaEvaluator_evaluate (aa_evaluator aa) (toEvaluatedAction e)
             \<and> ale_id e = ea_id (ke_action (fl_evaluation fl))" by blast
next
  show "\<not> distinct (map ale_id [entryAligned, entryShadowed])"
    by (simp add: entryAligned_def entryShadowed_def)
  show "map fl_action (rep_flaggedActions (audit defaultAudit [entryAligned, entryShadowed]))
          = [Some entryAligned]"
    by (simp add: flagged_duplicate_example)
  show "map fl_evaluation (rep_flaggedActions (audit defaultAudit [entryAligned, entryShadowed]))
          = [KarmaEvaluator_evaluate (aa_evaluator defaultAudit) (toEvaluatedAction entryShadowed)]"
    by (simp add: flagged_duplicate_example defaultAudit_evaluator)
  show "KarmaEvaluator_evaluate (aa_evaluator defaultAudit) (toEvaluatedAction entryShadowed)
          \<noteq> KarmaEvaluator_evaluate (aa_evaluator defaultAudit) (toEvaluatedAction entryAligned)"
    using score_entryAligned score_entryShadowed by (auto simp: defaultAudit_evaluator)
qed

theorem audit_flagged_actions_witness:
  "map fl_evaluation (rep_flaggedActions (audit defaultAudit [entryAligned, entryMisaligned]))
     = [KarmaEvaluator_evaluate defaultEvaluator (toEvaluatedAction entryMisaligned)]
   \<and> map fl_action (rep_flaggedActions (audit defaultAudit [entryAligned, entryMisaligned]))
       = [Some entryMisaligned]"
proof -
  define es where "es = [entryAligned, entryMisaligned]"
  have ne: "es \<noteq> []" by (simp add: es_def)
  have dist: "distinct (map ale_id es)"
    by (simp add: es_def entryAligned_def entryMisaligned_def)
  note T = audit_flagged_actions [of es defaultAudit]
  have evs: "map fl_evaluation (rep_flaggedActions (audit defaultAudit es))
     = [KarmaEvaluator_evaluate defaultEvaluator (toEvaluatedAction entryMisaligned)]"
    by (simp add: es_def flagged_distinct_example)
  then obtain fl where fl: "rep_flaggedActions (audit defaultAudit es) = [fl]"
      and flv: "fl_evaluation fl
                  = KarmaEvaluator_evaluate defaultEvaluator (toEvaluatedAction entryMisaligned)"
    by (auto simp: map_eq_Cons_conv)
  from T ne dist fl obtain e where e: "e \<in> set es" "fl_action fl = Some e"
      "fl_evaluation fl = KarmaEvaluator_evaluate (aa_evaluator defaultAudit) (toEvaluatedAction e)"
    by auto
  have "e \<noteq> entryAligned"
  proof
    assume "e = entryAligned"
    then have "ke_dharmaScore (KarmaEvaluator_evaluate defaultEvaluator (toEvaluatedAction entryMisaligned))
             = ke_dharmaScore (KarmaEvaluator_evaluate defaultEvaluator (toEvaluatedAction entryAligned))"
      using e(3) flv by (simp add: defaultAudit_evaluator)
    then show False by (simp add: score_entryAligned score_entryMisaligned)
  qed
  then have "e = entryMisaligned" using e(1) by (simp add: es_def)
  then have "map fl_action (rep_flaggedActions (audit defaultAudit es)) = [Some entryMisaligned]"
    using fl e(2) by simp
  with evs show ?thesis by (simp add: es_def)
qed

end
